theory Spec2Isabelle
  imports Complex_Main "HOL-Library.AList"
begin

section \<open>Data model of \<open>app/exporter.py\<close>\<close>

text \<open>
  A field of a cost row is a JSON number or a JSON string.  Python floats are modelled as
  reals: the exporter only compares costs and adds one cost to a literal zero, so no
  rounding takes place.
\<close>

datatype field = Num real | Str string

datatype error =
    KeyError string
  | IndexError
  | TypeError string
  | ValueError string
  | OverflowError
  | HttpResponseError string
  | AzureError string

datatype reg = Native | Usd

datatype tz = UTC

record datetime =
  year :: nat
  month :: nat
  day :: nat
  hour :: nat
  minute :: nat
  second :: nat
  microsecond :: nat
  tzinfo :: "tz option"

record merge_policy =
  mm_enabled :: bool
  threshold :: real
  tag_value :: string

record group_spec =
  group_type :: string
  group_name :: string
  label_name :: string

record group_by =
  enabled :: bool
  groups :: "group_spec list"
  merge_minor_cost :: merge_policy

type_synonym account = "(string \<times> string) list"
type_synonym row = "field list"
type_synonym kwargs = "(string \<times> field) list"

record client =
  tenant_id :: string
  client_id :: string
  client_secret :: string

record query_definition =
  qtype :: string
  granularity :: string
  grouping :: "(string \<times> string) list"
  timeframe :: string
  from_property :: datetime
  to_property :: datetime

text \<open>
  Every effect of the exporter on its collaborators is one event of a chronological
  history: a gauge cleared, a sample set on a gauge child, a line printed, a query sent to
  the billing client, an error logged, a sleep.
\<close>

datatype event =
    Cleared reg
  | Observed reg kwargs real
  | Printed string
  | Queried client string query_definition
  | Logged string
  | Slept real

type_synonym state = "event list"

text \<open>
  The collaborators whose answers the exporter consumes: the clock behind
  \<open>datetime.today()\<close>, the billing client behind \<open>azure_client.query.usage\<close> (its rows,
  or the exception it raises) and Python's parsing of a string by \<open>float\<close>.  The clock
  and the billing client may answer differently at different moments; the moment is the
  number of effects performed so far.
\<close>

record world =
  today :: "nat \<Rightarrow> datetime"
  usage :: "nat \<Rightarrow> client \<Rightarrow> string \<Rightarrow> query_definition \<Rightarrow> error + row list"
  str_to_float :: "string \<Rightarrow> real option"

record exporter =
  polling_interval_seconds :: real
  metric_name :: string
  metric_name_usd :: string
  group_by :: group_by
  targets :: "account list"
  secrets :: "(string \<times> (string \<times> string) list) list"
  labels :: "string list"

section \<open>Computations with effects and exceptions\<close>

text \<open>
  A statement of the exporter takes the history and returns the extended history together
  with either a value or the exception raised.  An exception does not undo the effects
  that came before it.
\<close>

type_synonym 'a comp = "state \<Rightarrow> (error + 'a) \<times> state"

definition ret :: "'a \<Rightarrow> 'a comp" where
  "ret x = (\<lambda>st. (Inr x, st))"

definition lift :: "error + 'a \<Rightarrow> 'a comp" where
  "lift r = (\<lambda>st. (r, st))"

definition bnd :: "'a comp \<Rightarrow> ('a \<Rightarrow> 'b comp) \<Rightarrow> 'b comp" where
  "bnd m f = (\<lambda>st. case m st of (Inl e, st') \<Rightarrow> (Inl e, st') | (Inr x, st') \<Rightarrow> f x st')"

definition emit :: "event \<Rightarrow> unit comp" where
  "emit e = (\<lambda>st. (Inr (), st @ [e]))"

section \<open>Python primitives\<close>

definition dict_get :: "(string \<times> 'a) list \<Rightarrow> string \<Rightarrow> error + 'a" where
  "dict_get d k = (case map_of d k of Some v \<Rightarrow> Inr v | None \<Rightarrow> Inl (KeyError k))"

definition list_get :: "'a list \<Rightarrow> nat \<Rightarrow> error + 'a" where
  "list_get xs i = (if i < length xs then Inr (xs ! i) else Inl IndexError)"

definition python_float :: "world \<Rightarrow> field \<Rightarrow> error + real" where
  "python_float w v = (case v of
      Num r \<Rightarrow> Inr r
    | Str s \<Rightarrow> (case str_to_float w s of
        Some r \<Rightarrow> Inr r
      | None \<Rightarrow> Inl (ValueError ''could not convert string to float'')))"

text \<open>\<open>s.add(x)\<close> on a set kept as a duplicate-free list.\<close>

definition set_add :: "string \<Rightarrow> string list \<Rightarrow> string list" where
  "set_add x xs = (if x \<in> set xs then xs else xs @ [x])"

text \<open>
  The keyword arguments of a call written \<open>f(**a, **b, k=v)\<close>: a key given twice is a
  \<open>TypeError\<close>.
\<close>

definition call_kwargs :: "kwargs \<Rightarrow> error + kwargs" where
  "call_kwargs kw = (if distinct (map fst kw) then Inr kw
     else Inl (TypeError ''got multiple values for keyword argument''))"

definition account_kwargs :: "account \<Rightarrow> kwargs" where
  "account_kwargs a = map (\<lambda>(k, v). (k, Str v)) a"

section \<open>The metric registry\<close>

text \<open>
  Modelled from the spec: the \<open>Gauge\<close> class of \<open>prometheus_client\<close>, which is not part of
  the repository.  The spec's Metric Registry has a label key set fixed at construction,
  and supplying a different key set to it is an error; \<open>labels(**kw)\<close> therefore raises
  \<open>ValueError\<close> unless the keys of \<open>kw\<close> are exactly the label names.
\<close>

definition gauge_labels :: "exporter \<Rightarrow> kwargs \<Rightarrow> error + kwargs" where
  "gauge_labels ex kw = (if set (map fst kw) = set (labels ex) then Inr kw
     else Inl (ValueError ''Incorrect label names''))"

text \<open>\<open>gauge.labels(**kw).set(v)\<close> on one of the two gauges.\<close>

definition gauge_set :: "exporter \<Rightarrow> reg \<Rightarrow> kwargs \<Rightarrow> real \<Rightarrow> unit comp" where
  "gauge_set ex r kw v =
     bnd (lift (call_kwargs kw)) (\<lambda>kw'.
     bnd (lift (gauge_labels ex kw')) (\<lambda>child.
     emit (Observed r child v)))"

text \<open>
  Modelled from the spec: the contents of a Metric Registry, a mutable map from label set
  to value with clear-all and set-by-labels.  A child is identified by the values of the
  label names in their fixed order.
\<close>

definition apply_event ::
  "string list \<Rightarrow> reg \<Rightarrow> (field option list \<times> real) list \<Rightarrow> event \<Rightarrow> (field option list \<times> real) list" where
  "apply_event names r acc e = (case e of
      Cleared r' \<Rightarrow> (if r' = r then [] else acc)
    | Observed r' kw v \<Rightarrow> (if r' = r then AList.update (map (map_of kw) names) v acc else acc)
    | _ \<Rightarrow> acc)"

definition samples :: "string list \<Rightarrow> reg \<Rightarrow> event list \<Rightarrow> (field option list \<times> real) list" where
  "samples names r evs = foldl (apply_event names r) [] evs"

section \<open>\<open>MetricExporter.__init__\<close>\<close>

definition label_names :: "group_by \<Rightarrow> account list \<Rightarrow> error + string list" where
  "label_names gb ts = (case ts of
      [] \<Rightarrow> Inl IndexError
    | t # _ \<Rightarrow> Inr (fold set_add (if enabled gb then map label_name (groups gb) else [])
                 (set_add ''Currency'' (set_add ''ChargeType'' (remdups (map fst t))))))"

definition MetricExporter ::
  "real \<Rightarrow> string \<Rightarrow> string \<Rightarrow> group_by \<Rightarrow> account list \<Rightarrow> (string \<times> (string \<times> string) list) list
     \<Rightarrow> error + exporter" where
  "MetricExporter interval name name_usd gb ts secs = (case label_names gb ts of
      Inl e \<Rightarrow> Inl e
    | Inr ls \<Rightarrow> Inr \<lparr>polling_interval_seconds = interval, metric_name = name,
        metric_name_usd = name_usd, group_by = gb, targets = ts, secrets = secs, labels = ls\<rparr>)"

section \<open>\<open>MetricExporter.expose_metrics\<close>\<close>

text \<open>Lines 93-96: the group labels of a row, group \<open>i\<close> read from field \<open>i + 3\<close>.\<close>

fun group_key_values :: "group_spec list \<Rightarrow> nat \<Rightarrow> row \<Rightarrow> kwargs \<Rightarrow> error + kwargs" where
  "group_key_values [] i result acc = Inr acc"
| "group_key_values (g # gs) i result acc = (case list_get result (i + 3) of
      Inl e \<Rightarrow> Inl e
    | Inr v \<Rightarrow> group_key_values gs (Suc i) result (AList.update (label_name g) v acc))"

text \<open>Lines 106-110: every group label bound to the placeholder of the merge policy.\<close>

fun merged_key_values :: "group_spec list \<Rightarrow> string \<Rightarrow> kwargs \<Rightarrow> kwargs" where
  "merged_key_values [] tag acc = acc"
| "merged_key_values (g # gs) tag acc =
     merged_key_values gs tag (AList.update (label_name g) (Str tag) acc)"

text \<open>
  Lines 98-103: a row below the threshold is added to the two accumulators, which line
  91-92 set to zero at the start of this call; any other row is set on both gauges.  The
  value is the pair of accumulators as line 105 finds them.
\<close>

definition merge_or_set ::
  "exporter \<Rightarrow> account \<Rightarrow> row \<Rightarrow> kwargs \<Rightarrow> real \<Rightarrow> real \<Rightarrow> (real \<times> real) comp" where
  "merge_or_set ex azure_account result gkv cost costUsd =
     (if mm_enabled (merge_minor_cost (group_by ex)) \<and> cost < threshold (merge_minor_cost (group_by ex))
      then ret (0 + cost, 0 + costUsd)
      else
        bnd (lift (list_get result 3)) (\<lambda>cur.
        bnd (gauge_set ex Native
               (account_kwargs azure_account @ gkv @
                  [(''ChargeType'', Str ''ActualCost''), (''Currency'', cur)]) cost) (\<lambda>_.
        bnd (lift (list_get result 3)) (\<lambda>cur'.
        bnd (gauge_set ex Usd
               (account_kwargs azure_account @ gkv @
                  [(''ChargeType'', Str ''ActualCost''), (''Currency'', cur')]) costUsd) (\<lambda>_.
        ret (0, 0))))))"

text \<open>Lines 105-116: the flush of the two accumulators.\<close>

definition flush_minor_cost :: "exporter \<Rightarrow> account \<Rightarrow> real \<times> real \<Rightarrow> unit comp" where
  "flush_minor_cost ex azure_account acc = (case acc of (merged_minor_cost, merged_minor_cost_usd) \<Rightarrow>
     if merged_minor_cost > 0 then
       bnd (gauge_set ex Native
              (account_kwargs azure_account @
                 merged_key_values (groups (group_by ex)) (tag_value (merge_minor_cost (group_by ex))) [] @
                 [(''ChargeType'', Str ''ActualCost'')]) merged_minor_cost) (\<lambda>_.
       gauge_set ex Usd
              (account_kwargs azure_account @
                 merged_key_values (groups (group_by ex)) (tag_value (merge_minor_cost (group_by ex))) [] @
                 [(''ChargeType'', Str ''ActualCost'')]) merged_minor_cost_usd)
     else ret ())"

definition expose_metrics :: "world \<Rightarrow> exporter \<Rightarrow> account \<Rightarrow> row \<Rightarrow> unit comp" where
  "expose_metrics w ex azure_account result =
     bnd (lift (case list_get result 0 of Inl e \<Rightarrow> Inl e | Inr v \<Rightarrow> python_float w v)) (\<lambda>cost.
     bnd (lift (case list_get result 1 of Inl e \<Rightarrow> Inl e | Inr v \<Rightarrow> python_float w v)) (\<lambda>costUsd.
     if \<not> enabled (group_by ex) then
       bnd (lift (list_get result 3)) (\<lambda>cur.
       bnd (gauge_set ex Native
              (account_kwargs azure_account @
                 [(''ChargeType'', Str ''ActualCost''), (''Currency'', cur)]) cost) (\<lambda>_.
       bnd (lift (list_get result 3)) (\<lambda>cur'.
       gauge_set ex Usd
              (account_kwargs azure_account @
                 [(''ChargeType'', Str ''ActualCost''), (''Currency'', cur')]) costUsd)))
     else
       bnd (lift (group_key_values (groups (group_by ex)) 0 result [])) (\<lambda>gkv.
       bnd (merge_or_set ex azure_account result gkv cost costUsd) (\<lambda>acc.
       flush_minor_cost ex azure_account acc))))"

section \<open>Dates\<close>

text \<open>
  The proleptic Gregorian calendar of Python's \<open>datetime\<close>, and \<open>d - relativedelta(days=1)\<close>,
  which steps one calendar day back and raises \<open>OverflowError\<close> before 0001-01-01.
\<close>

definition is_leap :: "nat \<Rightarrow> bool" where
  "is_leap y = (y mod 4 = 0 \<and> (y mod 100 \<noteq> 0 \<or> y mod 400 = 0))"

definition days_in_month :: "nat \<Rightarrow> nat \<Rightarrow> nat" where
  "days_in_month y m = (if m = 2 then (if is_leap y then 29 else 28)
     else if m = 4 \<or> m = 6 \<or> m = 9 \<or> m = 11 then 30 else 31)"





definition minus_one_day :: "datetime \<Rightarrow> error + datetime" where
  "minus_one_day d =
     (if 1 < day d then Inr (d\<lparr>day := day d - 1\<rparr>)
      else if 1 < month d then
        Inr (d\<lparr>month := month d - 1, day := days_in_month (year d) (month d - 1)\<rparr>)
      else if 1 < year d then Inr (d\<lparr>year := year d - 1, month := 12, day := 31\<rparr>)
      else Inl OverflowError)"

text \<open>\<open>datetime(y, m, d, tzinfo=timezone.utc)\<close>.\<close>

definition datetime_utc :: "nat \<Rightarrow> nat \<Rightarrow> nat \<Rightarrow> datetime" where
  "datetime_utc y m d = \<lparr>year = y, month = m, day = d, hour = 0, minute = 0, second = 0,
     microsecond = 0, tzinfo = Some UTC\<rparr>"

text \<open>\<open>int(d.strftime("%Y%m%d"))\<close>.\<close>

definition strftime_Ymd_int :: "datetime \<Rightarrow> int" where
  "strftime_Ymd_int d = int (year d * 10000 + month d * 100 + day d)"

text \<open>\<open>v != n\<close> for a row field \<open>v\<close> and an integer \<open>n\<close>: a string never equals an integer.\<close>

definition neq_int :: "field \<Rightarrow> int \<Rightarrow> bool" where
  "neq_int v n = (case v of Num r \<Rightarrow> r \<noteq> of_int n | Str s \<Rightarrow> True)"

section \<open>\<open>init_azure_client\<close> and \<open>query_azure_cost_explorer\<close>\<close>

definition init_azure_client :: "exporter \<Rightarrow> string \<Rightarrow> error + client" where
  "init_azure_client ex tenant = (case dict_get (secrets ex) tenant of
      Inl e \<Rightarrow> Inl e
    | Inr s \<Rightarrow> (case dict_get s ''client_id'' of
        Inl e \<Rightarrow> Inl e
      | Inr cid \<Rightarrow> (case dict_get s ''client_secret'' of
          Inl e \<Rightarrow> Inl e
        | Inr sec \<Rightarrow> Inr \<lparr>tenant_id = tenant, client_id = cid, client_secret = sec\<rparr>)))"

definition query_of :: "group_by \<Rightarrow> datetime \<Rightarrow> datetime \<Rightarrow> query_definition" where
  "query_of gb start_date end_date =
     \<lparr>qtype = ''ActualCost'', granularity = ''Daily'',
      grouping = (if enabled gb then map (\<lambda>g. (group_type g, group_name g)) (groups gb) else []),
      timeframe = ''Custom'',
      from_property = datetime_utc (year start_date) (month start_date) (day start_date),
      to_property = datetime_utc (year end_date) (month end_date) (day end_date)\<rparr>"

definition query_azure_cost_explorer ::
  "world \<Rightarrow> client \<Rightarrow> string \<Rightarrow> group_by \<Rightarrow> datetime \<Rightarrow> datetime \<Rightarrow> (row list) comp" where
  "query_azure_cost_explorer w azure_client subscription gb start_date end_date = (\<lambda>st.
     (usage w (length st) azure_client (''/subscriptions/'' @ subscription)
        (query_of gb start_date end_date),
      st @ [Queried azure_client (''/subscriptions/'' @ subscription)
              (query_of gb start_date end_date)]))"

section \<open>\<open>MetricExporter.fetch\<close>\<close>

text \<open>Lines 133-140: the rows of one account, filtered by date.\<close>

fun rows_loop :: "world \<Rightarrow> exporter \<Rightarrow> account \<Rightarrow> datetime \<Rightarrow> row list \<Rightarrow> unit comp" where
  "rows_loop w ex azure_account start_date [] st = (Inr (), st)"
| "rows_loop w ex azure_account start_date (result # rest) st =
     (case list_get result 2 of
        Inl e \<Rightarrow> (Inl e, st)
      | Inr d \<Rightarrow>
          if neq_int d (strftime_Ymd_int start_date) then rows_loop w ex azure_account start_date rest st
          else (case expose_metrics w ex azure_account result st of
                  (Inl e, st') \<Rightarrow> (Inl e, st')
                | (Inr _, st') \<Rightarrow> rows_loop w ex azure_account start_date rest st'))"

text \<open>Lines 124-128: the body of the \<open>try\<close>.\<close>

definition try_query ::
  "world \<Rightarrow> exporter \<Rightarrow> account \<Rightarrow> client \<Rightarrow> (datetime \<times> row list) comp" where
  "try_query w ex azure_account azure_client = (\<lambda>st.
     bnd (lift (minus_one_day (today w (length st)))) (\<lambda>start_date.
     bnd (lift (dict_get azure_account ''Subscription'')) (\<lambda>subscription.
     bnd (query_azure_cost_explorer w azure_client subscription (group_by ex) start_date
            (today w (length st))) (\<lambda>cost_response.
     ret (start_date, cost_response)))) st)"

text \<open>
  Lines 120-140: one iteration of the loop over the targets.  The printed line is kept
  as its tenant; only \<open>HttpResponseError\<close> is caught.
\<close>

definition fetch_account :: "world \<Rightarrow> exporter \<Rightarrow> account \<Rightarrow> unit comp" where
  "fetch_account w ex azure_account =
     bnd (lift (dict_get azure_account ''TenantId'')) (\<lambda>tenant.
     bnd (emit (Printed tenant)) (\<lambda>_.
     bnd (lift (init_azure_client ex tenant)) (\<lambda>azure_client.
     (\<lambda>st. case try_query w ex azure_account azure_client st of
         (Inl (HttpResponseError reason), st') \<Rightarrow> emit (Logged reason) st'
       | (Inl e, st') \<Rightarrow> (Inl e, st')
       | (Inr (start_date, cost_response), st') \<Rightarrow>
           rows_loop w ex azure_account start_date cost_response st'))))"

fun fetch_targets :: "world \<Rightarrow> exporter \<Rightarrow> account list \<Rightarrow> unit comp" where
  "fetch_targets w ex [] st = (Inr (), st)"
| "fetch_targets w ex (azure_account # rest) st =
     (case fetch_account w ex azure_account st of
        (Inl e, st') \<Rightarrow> (Inl e, st')
      | (Inr _, st') \<Rightarrow> fetch_targets w ex rest st')"

definition fetch :: "world \<Rightarrow> exporter \<Rightarrow> unit comp" where
  "fetch w ex = fetch_targets w ex (targets ex)"

section \<open>\<open>MetricExporter.run_metrics_loop\<close>\<close>

text \<open>One iteration of the \<open>while True\<close> loop.\<close>

definition tick :: "world \<Rightarrow> exporter \<Rightarrow> unit comp" where
  "tick w ex =
     bnd (emit (Cleared Native)) (\<lambda>_.
     bnd (emit (Cleared Usd)) (\<lambda>_.
     bnd (fetch w ex) (\<lambda>_.
     emit (Slept (polling_interval_seconds ex)))))"

text \<open>
  The loop has no exit of its own: it ends only when an iteration raises.
  \<open>run_metrics_loop n\<close> is its first \<open>n\<close> iterations.
\<close>

fun run_metrics_loop :: "nat \<Rightarrow> world \<Rightarrow> exporter \<Rightarrow> unit comp" where
  "run_metrics_loop 0 w ex st = (Inr (), st)"
| "run_metrics_loop (Suc n) w ex st =
     (case tick w ex st of
        (Inl e, st') \<Rightarrow> (Inl e, st')
      | (Inr _, st') \<Rightarrow> run_metrics_loop n w ex st')"

section \<open>Histories and scenarios\<close>

subsection \<open>Predicates on histories\<close>

text \<open>
  \<open>extends_with Q st st'\<close>: the history \<open>st'\<close> is \<open>st\<close> followed by events that all satisfy
  \<open>Q\<close>.  The predicates below classify the events that the parts of the exporter may add.
\<close>

definition extends_with :: "(event \<Rightarrow> bool) \<Rightarrow> state \<Rightarrow> state \<Rightarrow> bool" where
  "extends_with Q st st' = (\<exists>new. st' = st @ new \<and> list_all Q new)"

definition mapper_event :: "exporter \<Rightarrow> event \<Rightarrow> bool" where
  "mapper_event ex e = (case e of
      Observed r kw v \<Rightarrow> set (map fst kw) = set (labels ex)
    | _ \<Rightarrow> False)"

definition window_of :: "world \<Rightarrow> nat \<Rightarrow> query_definition \<Rightarrow> bool" where
  "window_of w k q = (case minus_one_day (today w k) of
      Inl e \<Rightarrow> False
    | Inr start \<Rightarrow>
        from_property q = datetime_utc (year start) (month start) (day start) \<and>
        to_property q = datetime_utc (year (today w k)) (month (today w k)) (day (today w k)))"

definition fetch_event :: "world \<Rightarrow> event \<Rightarrow> bool" where
  "fetch_event w e = (case e of
      Cleared r \<Rightarrow> False
    | Slept s \<Rightarrow> False
    | Queried cl scope q \<Rightarrow> (\<exists>k. window_of w k q)
    | _ \<Rightarrow> True)"

definition not_cleared :: "event \<Rightarrow> bool" where
  "not_cleared e = (case e of Cleared r \<Rightarrow> False | _ \<Rightarrow> True)"

definition loop_event :: "world \<Rightarrow> event \<Rightarrow> bool" where
  "loop_event w e = (case e of Queried cl scope q \<Rightarrow> (\<exists>k. window_of w k q) | _ \<Rightarrow> True)"


subsection \<open>Scenario data\<close>

text \<open>
  Two targets with the same keys, one group \<open>ServiceName\<close>, the three policies of the
  scenarios (grouping disabled; grouping without merge; grouping with merge below 4), the
  exporters the constructor builds for them, and a clock that reads 2024-01-16, 09:30.
\<close>

definition account_a :: account where
  "account_a = [(''TenantId'', ''tenant-a''), (''Subscription'', ''sub-a'')]"

definition account_b :: account where
  "account_b = [(''TenantId'', ''tenant-b''), (''Subscription'', ''sub-b'')]"

definition demo_secrets :: "(string \<times> (string \<times> string) list) list" where
  "demo_secrets =
     [(''tenant-a'', [(''client_id'', ''id-a''), (''client_secret'', ''secret-a'')]),
      (''tenant-b'', [(''client_id'', ''id-b''), (''client_secret'', ''secret-b'')])]"

definition service_name :: group_spec where
  "service_name = \<lparr>group_type = ''Dimension'', group_name = ''ServiceName'', label_name = ''ServiceName''\<rparr>"

definition policy_ungrouped :: group_by where
  "policy_ungrouped = \<lparr>enabled = False, groups = [service_name],
     merge_minor_cost = \<lparr>mm_enabled = False, threshold = 4, tag_value = ''other''\<rparr>\<rparr>"

definition policy_grouped :: group_by where
  "policy_grouped = \<lparr>enabled = True, groups = [service_name],
     merge_minor_cost = \<lparr>mm_enabled = False, threshold = 4, tag_value = ''other''\<rparr>\<rparr>"

definition policy_merged :: group_by where
  "policy_merged = \<lparr>enabled = True, groups = [service_name],
     merge_minor_cost = \<lparr>mm_enabled = True, threshold = 4, tag_value = ''other''\<rparr>\<rparr>"

definition exporter_ungrouped :: exporter where
  "exporter_ungrouped = \<lparr>polling_interval_seconds = 300, metric_name = ''azure_daily_cost'',
     metric_name_usd = ''azure_daily_cost_usd'', group_by = policy_ungrouped,
     targets = [account_a, account_b], secrets = demo_secrets,
     labels = [''TenantId'', ''Subscription'', ''ChargeType'', ''Currency'']\<rparr>"

definition exporter_grouped :: exporter where
  "exporter_grouped = \<lparr>polling_interval_seconds = 300, metric_name = ''azure_daily_cost'',
     metric_name_usd = ''azure_daily_cost_usd'', group_by = policy_grouped,
     targets = [account_a, account_b], secrets = demo_secrets,
     labels = [''TenantId'', ''Subscription'', ''ChargeType'', ''Currency'', ''ServiceName'']\<rparr>"

definition exporter_merged :: exporter where
  "exporter_merged = \<lparr>polling_interval_seconds = 300, metric_name = ''azure_daily_cost'',
     metric_name_usd = ''azure_daily_cost_usd'', group_by = policy_merged,
     targets = [account_a, account_b], secrets = demo_secrets,
     labels = [''TenantId'', ''Subscription'', ''ChargeType'', ''Currency'', ''ServiceName'']\<rparr>"

definition jan16 :: datetime where
  "jan16 = \<lparr>year = 2024, month = 1, day = 16, hour = 9, minute = 30, second = 0,
     microsecond = 0, tzinfo = None\<rparr>"

definition jan15 :: datetime where
  "jan15 = \<lparr>year = 2024, month = 1, day = 15, hour = 9, minute = 30, second = 0,
     microsecond = 0, tzinfo = None\<rparr>"

definition world_of :: "row list \<Rightarrow> world" where
  "world_of rows = \<lparr>today = (\<lambda>k. jan16), usage = (\<lambda>k cl scope q. Inr rows),
     str_to_float = (\<lambda>s. None)\<rparr>"


section \<open>Auxiliary lemmas\<close>

lemmas comp_defs = ret_def lift_def bnd_def emit_def

lemma extends_refl: "extends_with Q st st"
  by (simp add: extends_with_def)

lemma extends_trans:
  "extends_with Q st st' \<Longrightarrow> extends_with Q st' st'' \<Longrightarrow> extends_with Q st st''"
  unfolding extends_with_def by auto

lemma extends_mono:
  "extends_with P st st' \<Longrightarrow> (\<And>e. P e \<Longrightarrow> Q e) \<Longrightarrow> extends_with Q st st'"
  unfolding extends_with_def by (auto simp: list_all_iff)

lemma extends_snoc: "Q e \<Longrightarrow> extends_with Q st (st @ [e])"
  by (simp add: extends_with_def)

lemma extends_bnd:
  assumes "\<And>s. extends_with Q s (snd (m s))"
      and "\<And>x s. extends_with Q s (snd (f x s))"
  shows "extends_with Q st (snd (bnd m f st))"
proof (cases "m st")
  case (Pair r st')
  have a: "extends_with Q st st'" using assms(1)[of st] Pair by simp
  show ?thesis
  proof (cases r)
    case (Inl e)
    then show ?thesis using Pair a by (simp add: bnd_def)
  next
    case (Inr x)
    have "extends_with Q st' (snd (f x st'))" by (rule assms(2))
    then show ?thesis using Pair Inr a by (auto simp: bnd_def intro: extends_trans)
  qed
qed

lemma extends_lift: "extends_with Q st (snd (lift r st))"
  by (simp add: lift_def extends_refl)

lemma extends_ret: "extends_with Q st (snd (ret x st))"
  by (simp add: ret_def extends_refl)

lemma extends_emit: "Q e \<Longrightarrow> extends_with Q st (snd (emit e st))"
  by (simp add: emit_def extends_snoc)

lemma gauge_set_extends: "extends_with (mapper_event ex) st (snd (gauge_set ex r kw v st))"
  by (simp add: gauge_set_def call_kwargs_def gauge_labels_def comp_defs extends_with_def
        mapper_event_def)

lemma merge_or_set_extends:
  "extends_with (mapper_event ex) st (snd (merge_or_set ex a result gkv c u st))"
  unfolding merge_or_set_def
  by (auto intro!: extends_bnd extends_lift extends_ret gauge_set_extends)

lemma flush_minor_cost_extends:
  "extends_with (mapper_event ex) st (snd (flush_minor_cost ex a acc st))"
  unfolding flush_minor_cost_def
  by (auto split: prod.splits intro!: extends_bnd extends_lift extends_ret gauge_set_extends)

lemma expose_metrics_extends:
  "extends_with (mapper_event ex) st (snd (expose_metrics w ex a result st))"
  unfolding expose_metrics_def
  by (auto intro!: extends_bnd extends_lift extends_ret gauge_set_extends
        merge_or_set_extends flush_minor_cost_extends)

lemma rows_loop_extends:
  "extends_with (mapper_event ex) st (snd (rows_loop w ex a start rows st))"
proof (induction rows arbitrary: st)
  case Nil
  show ?case by (simp add: extends_refl)
next
  case (Cons result rest)
  show ?case
  proof (cases "list_get result 2")
    case (Inl e)
    then show ?thesis by (simp add: extends_refl)
  next
    case (Inr d)
    show ?thesis
    proof (cases "neq_int d (strftime_Ymd_int start)")
      case True
      then show ?thesis using Inr Cons.IH by simp
    next
      case False
      obtain r st' where ex: "expose_metrics w ex a result st = (r, st')"
        by (cases "expose_metrics w ex a result st")
      have a: "extends_with (mapper_event ex) st st'"
        using expose_metrics_extends[where st = st and w = w and ex = ex and a = a and result = result] ex by simp
      show ?thesis
      proof (cases r)
        case (Inl e)
        then show ?thesis using Inr False ex a by simp
      next
        case (Inr x)
        then show ?thesis using \<open>list_get result 2 = Inr d\<close> False ex a Cons.IH[of st']
          by (auto intro: extends_trans)
      qed
    qed
  qed
qed











lemma exporter_ungrouped_constructed:
  "MetricExporter 300 ''azure_daily_cost'' ''azure_daily_cost_usd'' policy_ungrouped
     [account_a, account_b] demo_secrets = Inr exporter_ungrouped"
  by (simp add: MetricExporter_def label_names_def exporter_ungrouped_def policy_ungrouped_def
        account_a_def set_add_def)

lemma exporter_grouped_constructed:
  "MetricExporter 300 ''azure_daily_cost'' ''azure_daily_cost_usd'' policy_grouped
     [account_a, account_b] demo_secrets = Inr exporter_grouped"
  by (simp add: MetricExporter_def label_names_def exporter_grouped_def policy_grouped_def
        account_a_def set_add_def service_name_def)


lemma minus_one_day_jan16: "minus_one_day jan16 = Inr jan15"
  by (simp add: minus_one_day_def jan16_def jan15_def)

lemma set_set_add: "set (set_add x xs) = insert x (set xs)"
  by (auto simp: set_add_def)

lemma set_fold_set_add: "set (fold set_add xs acc) = set xs \<union> set acc"
  by (induction xs arbitrary: acc) (auto simp: set_set_add)

lemma label_names_set:
  assumes "label_names gb ts = Inr ls"
  shows "ts \<noteq> [] \<and> set ls = fst ` set (hd ts) \<union> {''ChargeType'', ''Currency''} \<union>
           (if enabled gb then label_name ` set (groups gb) else {})"
  using assms unfolding label_names_def
  by (cases ts) (force simp: set_fold_set_add set_set_add)+

lemma MetricExporter_fields:
  assumes "MetricExporter interval name name_usd gb ts secs = Inr ex"
  shows "group_by ex = gb \<and> targets ex = ts \<and> secrets ex = secs \<and>
         label_names gb ts = Inr (labels ex)"
  using assms unfolding MetricExporter_def by (auto split: sum.splits)

lemma bnd_lift_Inr: "bnd (lift (Inr x)) f st = f x st"
  by (simp add: bnd_def lift_def)

lemma gauge_set_accepted:
  assumes "distinct (map fst kw)" and "set (map fst kw) = set (labels ex)"
  shows "gauge_set ex r kw v st = (Inr (), st @ [Observed r kw v])"
  using assms by (simp add: gauge_set_def call_kwargs_def gauge_labels_def bnd_lift_Inr emit_def)

lemma account_kwargs_keys: "map fst (account_kwargs a) = map fst a"
  by (induction a) (auto simp: account_kwargs_def)

lemma group_key_values_succeeds:
  "i + length gs + 3 \<le> length result \<Longrightarrow> \<exists>kw. group_key_values gs i result acc = Inr kw"
  by (induction gs arbitrary: i acc) (auto simp: list_get_def)

lemma gauge_labels_eval:
  "gauge_labels ex kw =
     (if list_all (\<lambda>k. k \<in> set (labels ex)) (map fst kw) \<and>
         list_all (\<lambda>l. l \<in> set (map fst kw)) (labels ex)
      then Inr kw else Inl (ValueError ''Incorrect label names''))"
  unfolding gauge_labels_def list_all_iff by auto

lemmas eval_defs =
  expose_metrics_def merge_or_set_def flush_minor_cost_def gauge_set_def call_kwargs_def
  gauge_labels_eval account_kwargs_def list_get_def python_float_def neq_int_def
  strftime_Ymd_int_def comp_defs

lemma mapper_event_fetch_event: "mapper_event ex e \<Longrightarrow> fetch_event w e"
  by (cases e) (simp_all add: mapper_event_def fetch_event_def)

lemma try_query_extends:
  "extends_with (fetch_event w) st (snd (try_query w ex a cl st))"
proof (cases "minus_one_day (today w (length st))")
  case (Inl e)
  then show ?thesis by (simp add: try_query_def comp_defs extends_refl)
next
  case (Inr start)
  show ?thesis
  proof (cases "dict_get a ''Subscription''")
    case (Inl e)
    then show ?thesis using Inr by (simp add: try_query_def comp_defs extends_refl)
  next
    case sub: (Inr s)
    have "fetch_event w (Queried cl (''/subscriptions/'' @ s)
            (query_of (group_by ex) start (today w (length st))))"
      using Inr by (auto simp: fetch_event_def window_of_def query_of_def intro!: exI[of _ "length st"])
    then have "extends_with (fetch_event w) st
        (st @ [Queried cl (''/subscriptions/'' @ s) (query_of (group_by ex) start (today w (length st)))])"
      by (rule extends_snoc)
    then show ?thesis using Inr sub
      by (simp add: try_query_def query_azure_cost_explorer_def comp_defs split: sum.splits)
  qed
qed

lemma fetch_tail_extends:
  "extends_with (fetch_event w) st
     (snd (case try_query w ex a cl st of
         (Inl (HttpResponseError reason), st') \<Rightarrow> emit (Logged reason) st'
       | (Inl e, st') \<Rightarrow> (Inl e, st')
       | (Inr (start_date, cost_response), st') \<Rightarrow> rows_loop w ex a start_date cost_response st'))"
proof -
  obtain r st' where t: "try_query w ex a cl st = (r, st')" by (cases "try_query w ex a cl st")
  have a: "extends_with (fetch_event w) st st'" using try_query_extends[where w = w and st = st and ex = ex and a = a and cl = cl] t by simp
  have l: "\<And>reason. extends_with (fetch_event w) st' (snd (emit (Logged reason) st'))"
    by (rule extends_emit) (simp add: fetch_event_def)
  have m: "\<And>sd rows. extends_with (fetch_event w) st' (snd (rows_loop w ex a sd rows st'))"
    by (rule extends_mono[OF rows_loop_extends]) (rule mapper_event_fetch_event)
  have "extends_with (fetch_event w) st'
     (snd (case (r, st') of
         (Inl (HttpResponseError reason), st') \<Rightarrow> emit (Logged reason) st'
       | (Inl e, st') \<Rightarrow> (Inl e, st')
       | (Inr (start_date, cost_response), st') \<Rightarrow> rows_loop w ex a start_date cost_response st'))"
    using l m by (auto split: sum.splits error.splits prod.splits intro: extends_refl)
  then show ?thesis using a t by (auto intro: extends_trans)
qed

lemma fetch_account_extends:
  "extends_with (fetch_event w) st (snd (fetch_account w ex a st))"
  unfolding fetch_account_def
  by (intro extends_bnd extends_lift extends_emit fetch_tail_extends) (simp add: fetch_event_def)

lemma fetch_targets_extends:
  "extends_with (fetch_event w) st (snd (fetch_targets w ex ts st))"
proof (induction ts arbitrary: st)
  case Nil
  show ?case by (simp add: extends_refl)
next
  case (Cons a ts)
  obtain r st' where f: "fetch_account w ex a st = (r, st')" by (cases "fetch_account w ex a st")
  have a: "extends_with (fetch_event w) st st'" using fetch_account_extends[where w = w and st = st and ex = ex and a = a] f by simp
  show ?case
  proof (cases r)
    case (Inl e)
    then show ?thesis using f a by simp
  next
    case (Inr x)
    then show ?thesis using f a Cons.IH[of st'] by (auto intro: extends_trans)
  qed
qed

lemma tick_shape:
  "\<exists>b. snd (tick w ex st) = st @ Cleared Native # Cleared Usd # b \<and>
       list_all (\<lambda>e. not_cleared e \<and> loop_event w e) b"
proof -
  obtain r st' where f: "fetch w ex (st @ [Cleared Native, Cleared Usd]) = (r, st')"
    by (cases "fetch w ex (st @ [Cleared Native, Cleared Usd])")
  obtain new where n: "st' = (st @ [Cleared Native, Cleared Usd]) @ new" "list_all (fetch_event w) new"
    using fetch_targets_extends[where w = w and st = "st @ [Cleared Native, Cleared Usd]" and ex = ex and ts = "targets ex"] f
    by (auto simp: fetch_def extends_with_def)
  have g: "list_all (\<lambda>e. not_cleared e \<and> loop_event w e) new"
    using n(2) by (auto simp: list_all_iff fetch_event_def not_cleared_def loop_event_def split: event.splits)
  show ?thesis
  proof (cases r)
    case (Inl e)
    then show ?thesis using f n g by (auto simp: tick_def comp_defs)
  next
    case (Inr x)
    have "snd (tick w ex st) = st @ Cleared Native # Cleared Usd # (new @ [Slept (polling_interval_seconds ex)])"
      using Inr f n by (simp add: tick_def comp_defs)
    moreover have "list_all (\<lambda>e. not_cleared e \<and> loop_event w e) (new @ [Slept (polling_interval_seconds ex)])"
      using g by (simp add: not_cleared_def loop_event_def)
    ultimately show ?thesis by blast
  qed
qed

lemma tick_ok_or_not: "fst (tick w ex st) = Inr () \<or> (\<exists>e. fst (tick w ex st) = Inl e)"
  by (cases "fst (tick w ex st)") auto

lemma loop_shape:
  "\<exists>blocks. snd (run_metrics_loop n w ex st) =
              st @ concat (map (\<lambda>b. Cleared Native # Cleared Usd # b) blocks) \<and>
            length blocks \<le> n \<and>
            (fst (run_metrics_loop n w ex st) = Inr () \<longrightarrow> length blocks = n) \<and>
            (\<forall>b\<in>set blocks. list_all (\<lambda>e. not_cleared e \<and> loop_event w e) b)"
proof (induction n arbitrary: st)
  case 0
  show ?case by (rule exI[of _ "[]"]) simp
next
  case (Suc n)
  obtain b where b: "snd (tick w ex st) = st @ Cleared Native # Cleared Usd # b"
      "list_all (\<lambda>e. not_cleared e \<and> loop_event w e) b"
    using tick_shape[of w ex st] by blast
  obtain r st' where t: "tick w ex st = (r, st')" by (cases "tick w ex st")
  have st': "st' = st @ Cleared Native # Cleared Usd # b" using b(1) t by simp
  show ?case
  proof (cases r)
    case (Inl e)
    have "snd (run_metrics_loop (Suc n) w ex st) =
            st @ concat (map (\<lambda>b. Cleared Native # Cleared Usd # b) [b])"
      using Inl t st' by simp
    moreover have "fst (run_metrics_loop (Suc n) w ex st) \<noteq> Inr ()" using Inl t by simp
    ultimately show ?thesis using b(2) by (intro exI[of _ "[b]"]) simp
  next
    case (Inr x)
    obtain blocks where bl:
      "snd (run_metrics_loop n w ex st') =
         st' @ concat (map (\<lambda>b. Cleared Native # Cleared Usd # b) blocks)"
      "length blocks \<le> n"
      "fst (run_metrics_loop n w ex st') = Inr () \<longrightarrow> length blocks = n"
      "\<forall>b\<in>set blocks. list_all (\<lambda>e. not_cleared e \<and> loop_event w e) b"
      using Suc.IH[of st'] by blast
    have r: "run_metrics_loop (Suc n) w ex st = run_metrics_loop n w ex st'"
      using Inr t by simp
    show ?thesis
      unfolding r using bl b(2) by (intro exI[of _ "b # blocks"]) (simp add: st')
  qed
qed

lemma samples_after_clears:
  "samples names r (pre @ Cleared Native # Cleared Usd # b) = samples names r b"
  by (cases r) (simp_all add: samples_def apply_event_def)




lemmas scenario_defs =
  exporter_ungrouped_def exporter_grouped_def exporter_merged_def policy_ungrouped_def
  policy_grouped_def policy_merged_def service_name_def account_a_def account_b_def jan15_def

lemmas fetch_eval_defs =
  fetch_def fetch_account_def try_query_def query_azure_cost_explorer_def dict_get_def
  init_azure_client_def tick_def





section \<open>The claims\<close>

text \<open>
  C1 (the code departs from the claim): the two accumulators are local variables of
  \<open>expose_metrics\<close>, set to zero by every call, and the flush is attempted inside the same
  call.  With threshold 4 and the rows of cost 1 and 2, the pass stops at the first row:
  its accumulator holds 1 and is flushed at once, which the registry rejects.  The
  accumulators of the second row would hold that row's own 2, not the running sum 3.
\<close>

theorem minor_cost_accumulator_is_reset_by_every_row:
  "rows_loop (world_of []) exporter_merged account_a jan15
     [[Num 1, Num 1, Num 20240115, Str ''USD'', Str ''VM''],
      [Num 2, Num 2, Num 20240115, Str ''USD'', Str ''Storage'']] [] =
     (Inl (ValueError ''Incorrect label names''), []) \<and>
   merge_or_set exporter_merged account_a
     [Num 2, Num 2, Num 20240115, Str ''USD'', Str ''Storage''] [(''ServiceName'', Str ''USD'')] 2 2 [] =
     (Inr (2, 2), [])"
  by (simp add: scenario_defs eval_defs)

text \<open>
  C2 (the code departs from the claim): the flush calls \<open>labels\<close> without the \<open>Currency\<close>
  key, although the constructor put \<open>Currency\<close> among the label names of both gauges.  With
  threshold 4 the row of cost 3 therefore raises \<open>ValueError\<close> and no synthetic observation
  is written to either registry.
\<close>

theorem minor_cost_flush_is_rejected:
  "rows_loop (world_of []) exporter_merged account_a jan15
     [[Num 3, Num 3, Num 20240115, Str ''USD'', Str ''Storage'']] [] =
     (Inl (ValueError ''Incorrect label names''), []) \<and>
   flush_minor_cost exporter_merged account_a (3, 3) [] =
     (Inl (ValueError ''Incorrect label names''), []) \<and>
   ''Currency'' \<in> set (labels exporter_merged) \<and>
   ''Currency'' \<notin> fst ` set (account_kwargs account_a @
      merged_key_values (groups (group_by exporter_merged))
        (tag_value (merge_minor_cost (group_by exporter_merged))) [] @
      [(''ChargeType'', Str ''ActualCost'')])"
  by (simp add: scenario_defs eval_defs)

text \<open>
  C3 (the code departs from the claim): the first group is read from field 3 of the row,
  the field that is also read as the currency.  In the scenario both rows are labelled
  \<open>ServiceName=USD\<close>; neither \<open>VM\<close> nor \<open>Storage\<close> appears, the two rows address the same
  child of each gauge, and the native gauge ends with the single sample 3.
\<close>

theorem grouped_scenario_binds_group_to_currency_field:
  "rows_loop (world_of []) exporter_grouped account_a jan15
     [[Num 5, Num 5, Num 20240115, Str ''USD'', Str ''VM''],
      [Num 3, Num 3, Num 20240115, Str ''USD'', Str ''Storage'']] [] =
     (Inr (),
      [Observed Native [(''TenantId'', Str ''tenant-a''), (''Subscription'', Str ''sub-a''),
                        (''ServiceName'', Str ''USD''), (''ChargeType'', Str ''ActualCost''),
                        (''Currency'', Str ''USD'')] 5,
       Observed Usd [(''TenantId'', Str ''tenant-a''), (''Subscription'', Str ''sub-a''),
                     (''ServiceName'', Str ''USD''), (''ChargeType'', Str ''ActualCost''),
                     (''Currency'', Str ''USD'')] 5,
       Observed Native [(''TenantId'', Str ''tenant-a''), (''Subscription'', Str ''sub-a''),
                        (''ServiceName'', Str ''USD''), (''ChargeType'', Str ''ActualCost''),
                        (''Currency'', Str ''USD'')] 3,
       Observed Usd [(''TenantId'', Str ''tenant-a''), (''Subscription'', Str ''sub-a''),
                     (''ServiceName'', Str ''USD''), (''ChargeType'', Str ''ActualCost''),
                     (''Currency'', Str ''USD'')] 3]) \<and>
   samples (labels exporter_grouped) Native
     (snd (rows_loop (world_of []) exporter_grouped account_a jan15
        [[Num 5, Num 5, Num 20240115, Str ''USD'', Str ''VM''],
         [Num 3, Num 3, Num 20240115, Str ''USD'', Str ''Storage'']] [])) =
     [([Some (Str ''tenant-a''), Some (Str ''sub-a''), Some (Str ''ActualCost''),
        Some (Str ''USD''), Some (Str ''USD'')], 3)]"
  by (simp add: scenario_defs eval_defs samples_def apply_event_def)




text \<open>
  C5: a row whose date field differs from the start date of the query window is skipped:
  wherever it stands in the response, the pass over the rows ends in the same history and
  with the same outcome as the pass over the response without that row, so the row yields
  no observation in either registry and no error.
\<close>

theorem date_mismatch_row_discarded:
  assumes "2 < length result"
      and "neq_int (result ! 2) (strftime_Ymd_int start_date)"
  shows "rows_loop w ex azure_account start_date (pre @ result # rest) st =
         rows_loop w ex azure_account start_date (pre @ rest) st"
proof (induction pre arbitrary: st)
  case Nil
  show ?case using assms by (simp add: list_get_def)
next
  case (Cons p pre)
  show ?case by (simp add: Cons.IH split: sum.splits prod.splits)
qed

theorem date_mismatch_row_discarded_witness:
  "2 < length [Num 7, Num 7, Num 20240116, Str ''USD''] \<and>
   neq_int ([Num 7, Num 7, Num 20240116, Str ''USD''] ! 2) (strftime_Ymd_int jan15) \<and>
   rows_loop (world_of []) exporter_ungrouped account_a jan15
     ([[Num 10.5, Num 11, Num 20240115, Str ''USD'']] @
        [Num 7, Num 7, Num 20240116, Str ''USD''] # [[Num 2, Num 2, Num 20240115, Str ''EUR'']]) [] =
   rows_loop (world_of []) exporter_ungrouped account_a jan15
     ([[Num 10.5, Num 11, Num 20240115, Str ''USD'']] @ [[Num 2, Num 2, Num 20240115, Str ''EUR'']]) []"
  using date_mismatch_row_discarded[where result = "[Num 7, Num 7, Num 20240116, Str ''USD'']"
      and start_date = jan15 and w = "world_of []" and ex = exporter_ungrouped
      and azure_account = account_a and pre = "[[Num 10.5, Num 11, Num 20240115, Str ''USD'']]"
      and rest = "[[Num 2, Num 2, Num 20240115, Str ''EUR'']]" and st = "[]"]
  by (simp add: neq_int_def strftime_Ymd_int_def jan15_def)





text \<open>
  C8: the history of any number of iterations of the polling loop, from any starting
  history, is a sequence of blocks, one per tick; each block starts by clearing both
  gauges and clears nothing afterwards, so every observation of a tick is written after
  the two clears of that tick, and the contents of a registry are those written in the
  last tick alone.
\<close>

theorem every_tick_clears_before_writing:
  "\<exists>blocks. snd (run_metrics_loop n w ex st) =
              st @ concat (map (\<lambda>b. Cleared Native # Cleared Usd # b) blocks) \<and>
            length blocks \<le> n \<and>
            (fst (run_metrics_loop n w ex st) = Inr () \<longrightarrow> length blocks = n) \<and>
            (\<forall>b\<in>set blocks. \<forall>r. Cleared r \<notin> set b) \<and>
            (blocks \<noteq> [] \<longrightarrow>
               (\<forall>names r. samples names r (snd (run_metrics_loop n w ex st)) =
                  samples names r (last blocks)))"
proof -
  obtain blocks where bl:
      "snd (run_metrics_loop n w ex st) =
         st @ concat (map (\<lambda>b. Cleared Native # Cleared Usd # b) blocks)"
      "length blocks \<le> n"
      "fst (run_metrics_loop n w ex st) = Inr () \<longrightarrow> length blocks = n"
      "\<forall>b\<in>set blocks. list_all (\<lambda>e. not_cleared e \<and> loop_event w e) b"
    using loop_shape[of n w ex st] by blast
  have nc: "\<forall>b\<in>set blocks. \<forall>r. Cleared r \<notin> set b"
  proof (intro ballI allI notI)
    fix b r assume "b \<in> set blocks" "Cleared r \<in> set b"
    then have "not_cleared (Cleared r)" using bl(4) by (auto simp: list_all_iff)
    then show False by (simp add: not_cleared_def)
  qed
  have sm: "blocks \<noteq> [] \<longrightarrow>
      (\<forall>names r. samples names r (snd (run_metrics_loop n w ex st)) = samples names r (last blocks))"
  proof (intro impI allI)
    fix names r assume ne: "blocks \<noteq> []"
    then have "blocks = butlast blocks @ [last blocks]" by simp
    then have "concat (map (\<lambda>b. Cleared Native # Cleared Usd # b) blocks) =
        concat (map (\<lambda>b. Cleared Native # Cleared Usd # b) (butlast blocks)) @
        Cleared Native # Cleared Usd # last blocks"
      by (metis (no_types, lifting) append_Nil2 concat.simps concat_append list.simps(8,9) map_append)
    then have "snd (run_metrics_loop n w ex st) =
        (st @ concat (map (\<lambda>b. Cleared Native # Cleared Usd # b) (butlast blocks))) @
        Cleared Native # Cleared Usd # last blocks"
      using bl(1) by simp
    then show "samples names r (snd (run_metrics_loop n w ex st)) = samples names r (last blocks)"
      by (simp only: samples_after_clears)
  qed
  show ?thesis using bl(1,2,3) nc sm by blast
qed

theorem every_tick_clears_before_writing_witness:
  "(\<exists>blocks. snd (run_metrics_loop 2 (world_of [[Num 10.5, Num 11.0, Num 20240115, Str ''USD'']])
                   exporter_ungrouped []) =
              [] @ concat (map (\<lambda>b. Cleared Native # Cleared Usd # b) blocks) \<and>
            length blocks \<le> 2 \<and>
            (fst (run_metrics_loop 2 (world_of [[Num 10.5, Num 11.0, Num 20240115, Str ''USD'']])
                   exporter_ungrouped []) = Inr () \<longrightarrow> length blocks = 2) \<and>
            (\<forall>b\<in>set blocks. \<forall>r. Cleared r \<notin> set b) \<and>
            (blocks \<noteq> [] \<longrightarrow>
               (\<forall>names r. samples names r
                    (snd (run_metrics_loop 2 (world_of [[Num 10.5, Num 11.0, Num 20240115, Str ''USD'']])
                       exporter_ungrouped [])) =
                  samples names r (last blocks)))) \<and>
   fst (run_metrics_loop 2 (world_of [[Num 10.5, Num 11.0, Num 20240115, Str ''USD'']])
          exporter_ungrouped []) = Inr ()"
proof -
  have "fst (run_metrics_loop 2 (world_of [[Num 10.5, Num 11.0, Num 20240115, Str ''USD'']])
          exporter_ungrouped []) = Inr ()"
    by (simp add: numeral_2_eq_2 fetch_eval_defs exporter_ungrouped_def account_a_def account_b_def
          demo_secrets_def world_of_def minus_one_day_jan16 policy_ungrouped_def jan15_def eval_defs)
  then show ?thesis
    using every_tick_clears_before_writing[of 2
        "world_of [[Num 10.5, Num 11.0, Num 20240115, Str ''USD'']]" exporter_ungrouped "[]"]
    by blast
qed

text \<open>
  C9: with grouping disabled, an accepted row sets exactly one sample on each gauge, labelled
  with the labels of the account, \<open>ChargeType=ActualCost\<close> and the currency field of the
  row, valued with the cost and the USD cost of the row; the pass then goes on with the
  remaining rows.  The exporter is one built by the constructor and the account has the keys
  of the first target.
\<close>

theorem ungrouped_row_one_observation:
  assumes built: "MetricExporter interval name name_usd gb ts secs = Inr ex"
      and off: "\<not> enabled gb"
      and keys: "fst ` set azure_account = fst ` set (hd ts)"
      and dist: "distinct (map fst azure_account)"
      and fresh: "''ChargeType'' \<notin> fst ` set azure_account" "''Currency'' \<notin> fst ` set azure_account"
      and len: "4 \<le> length result"
      and cost: "python_float w (result ! 0) = Inr cost"
      and costUsd: "python_float w (result ! 1) = Inr costUsd"
      and date: "\<not> neq_int (result ! 2) (strftime_Ymd_int start_date)"
  shows "rows_loop w ex azure_account start_date (result # rest) st =
         rows_loop w ex azure_account start_date rest
           (st @ [Observed Native
                    (account_kwargs azure_account @
                       [(''ChargeType'', Str ''ActualCost''), (''Currency'', result ! 3)]) cost,
                  Observed Usd
                    (account_kwargs azure_account @
                       [(''ChargeType'', Str ''ActualCost''), (''Currency'', result ! 3)]) costUsd])"
proof -
  let ?kw = "account_kwargs azure_account @
               [(''ChargeType'', Str ''ActualCost''), (''Currency'', result ! 3)]"
  have gb: "group_by ex = gb" and ln: "label_names gb ts = Inr (labels ex)"
    using MetricExporter_fields[OF built] by simp_all
  have ls: "set (labels ex) = fst ` set azure_account \<union> {''ChargeType'', ''Currency''}"
    using label_names_set[OF ln] off keys by simp
  have d: "distinct (map fst ?kw)"
    using dist fresh by (simp add: account_kwargs_keys)
  have k: "set (map fst ?kw) = set (labels ex)"
    using ls by (auto simp: account_kwargs_keys)
  have l: "0 < length result" "1 < length result" "2 < length result" "3 < length result"
    using len by auto
  have e: "expose_metrics w ex azure_account result st =
             (Inr (), st @ [Observed Native ?kw cost, Observed Usd ?kw costUsd])"
    using l cost costUsd off gb
    by (simp add: expose_metrics_def list_get_def comp_defs gauge_set_accepted[OF d k])
  show ?thesis using l date by (simp add: list_get_def e)
qed

theorem ungrouped_row_one_observation_witness:
  "rows_loop (world_of []) exporter_ungrouped account_a jan15
     [[Num 10.5, Num 11.0, Num 20240115, Str ''USD'']] [] =
   (Inr (),
    [Observed Native [(''TenantId'', Str ''tenant-a''), (''Subscription'', Str ''sub-a''),
                      (''ChargeType'', Str ''ActualCost''), (''Currency'', Str ''USD'')] 10.5,
     Observed Usd [(''TenantId'', Str ''tenant-a''), (''Subscription'', Str ''sub-a''),
                   (''ChargeType'', Str ''ActualCost''), (''Currency'', Str ''USD'')] 11.0])"
  using ungrouped_row_one_observation[OF exporter_ungrouped_constructed,
      where azure_account = account_a and result = "[Num 10.5, Num 11.0, Num 20240115, Str ''USD'']"
      and w = "world_of []" and cost = "10.5" and costUsd = "11.0" and start_date = jan15
      and rest = "[]" and st = "[]"]
  by (simp add: policy_ungrouped_def account_a_def account_kwargs_def python_float_def
        neq_int_def strftime_Ymd_int_def jan15_def)

text \<open>
  C10: with grouping and the minor-cost merge enabled, a row whose cost is below the
  threshold and not positive leaves no trace: the pass goes on with the remaining rows
  from an unchanged history, exactly as if the row had not been in the response.
\<close>

theorem nonpositive_minor_row_leaves_no_trace:
  assumes "enabled (group_by ex)"
      and "mm_enabled (merge_minor_cost (group_by ex))"
      and len: "length (groups (group_by ex)) + 3 \<le> length result"
      and cost: "python_float w (result ! 0) = Inr cost"
      and costUsd: "python_float w (result ! 1) = Inr costUsd"
      and below: "cost < threshold (merge_minor_cost (group_by ex))"
      and nonpos: "cost \<le> 0"
  shows "rows_loop w ex azure_account start_date (result # rest) st =
         rows_loop w ex azure_account start_date rest st"
proof -
  obtain gkv where g: "group_key_values (groups (group_by ex)) 0 result [] = Inr gkv"
    using group_key_values_succeeds[of 0 "groups (group_by ex)" result "[]"] len by auto
  have l: "0 < length result" "1 < length result" using len by auto
  have e: "expose_metrics w ex azure_account result st = (Inr (), st)"
    using assms g l
    by (simp add: expose_metrics_def list_get_def merge_or_set_def flush_minor_cost_def comp_defs)
  have "2 < length result" using len by auto
  then show ?thesis by (simp add: list_get_def e)
qed

theorem nonpositive_minor_row_leaves_no_trace_witness:
  "rows_loop (world_of []) exporter_merged account_a jan15
     [[Num (- 2), Num (- 2), Num 20240115, Str ''USD'', Str ''VM''],
      [Num 5, Num 5, Num 20240115, Str ''USD'', Str ''Storage'']] [] =
   rows_loop (world_of []) exporter_merged account_a jan15
     [[Num 5, Num 5, Num 20240115, Str ''USD'', Str ''Storage'']] []"
  using nonpositive_minor_row_leaves_no_trace[where ex = exporter_merged
      and result = "[Num (- 2), Num (- 2), Num 20240115, Str ''USD'', Str ''VM'']"
      and w = "world_of []" and cost = "- 2" and costUsd = "- 2" and azure_account = account_a
      and start_date = jan15
      and rest = "[[Num 5, Num 5, Num 20240115, Str ''USD'', Str ''Storage'']]" and st = "[]"]
  by (simp add: exporter_merged_def policy_merged_def python_float_def)

end
